theory Spec2Isabelle
  imports Main "HOL-Library.List_Lexorder" "HOL-Library.Char_ord"
begin

section \<open>Data model\<close>

text \<open>
  Modelled from the spec: the entity classes \<^verbatim>\<open>Unit\<close>, \<^verbatim>\<open>Inmate\<close>,
  \<^verbatim>\<open>Request\<close> and \<^verbatim>\<open>Shipment\<close> of \<^verbatim>\<open>ibp.models\<close>, which the
  handlers of \<^verbatim>\<open>ibp/views.py\<close> use through the object-relational session and
  which are not among the source files. The records carry the attributes that
  the handlers read or write. Rows are identified by their \<^verbatim>\<open>autoid\<close>. A
  Request refers to its Inmate by that inmate's \<^verbatim>\<open>autoid\<close> (\<open>None\<close> for a
  null reference), so that two Requests of one Inmate share the one Inmate
  object; an Inmate holds its Unit, which no handler modelled here changes, by
  value. Names and the inmate number are taken to be non-null; a Unit's
  \<^verbatim>\<open>street1\<close> and \<^verbatim>\<open>shipping_method\<close> may be null. Timestamps are numbers
  that grow with time.
\<close>

datatype date = Date (year: nat) (month: nat) (day: nat)

type_synonym datetime = nat

record Unit =
  u_autoid :: nat
  u_name :: string
  u_street1 :: "string option"
  u_shipping_method :: "string option"

record Inmate =
  i_autoid :: nat
  i_jurisdiction :: string
  i_id :: int
  i_first_name :: string
  i_last_name :: string
  i_unit :: "Unit option"
  i_lookups :: "datetime list"

record Request =
  r_autoid :: nat
  r_action :: string
  r_date_postmarked :: date
  r_date_processed :: date
  r_inmate :: "nat option"

record Shipment =
  s_requests :: "nat list"
  s_date_shipped :: date
  s_unit :: Unit
  s_weight :: int
  s_postage :: int
  s_tracking_code :: string

record db =
  inmates :: "nat \<rightharpoonup> Inmate"
  requests :: "Request list"
  shipments :: "Shipment list"

text \<open>
  What a handler hands back to the framework: a rendered template (with the
  inmates passed to it), a redirect to an endpoint, a body with a status code,
  a JSON object, the 404 of \<^verbatim>\<open>first_or_404\<close>, or an exception that nothing
  catches.
\<close>

datatype json =
    JNull
  | JBool bool
  | JInt int
  | JStr string
  | JArray "json list"
  | JObject "(string \<times> json) list"

datatype response =
    Template string "Inmate list"
  | RedirectTo string nat
  | Body string nat
  | Jsonify "(string \<times> json) list"
  | Abort nat
  | Raised string

section \<open>Viewing an inmate\<close>

text \<open>
  \<^verbatim>\<open>view_inmate\<close>: the inmate is looked up by \<^verbatim>\<open>autoid\<close> (404 when there is
  none); \<^verbatim>\<open>del inmate.lookups[2:]\<close> keeps the first two entries of the list,
  \<^verbatim>\<open>append(datetime.now())\<close> puts the current time behind them, and the
  session is committed. The clock is the parameter \<open>now\<close>.
\<close>

definition view_inmate :: "datetime \<Rightarrow> nat \<Rightarrow> db \<Rightarrow> response \<times> db" where
  "view_inmate now autoid s =
     (case inmates s autoid of
        None \<Rightarrow> (Abort 404, s)
      | Some inmate \<Rightarrow>
          let inmate' = inmate\<lparr>i_lookups := take 2 (i_lookups inmate) @ [now]\<rparr>;
              s' = s\<lparr>inmates := (inmates s)(autoid \<mapsto> inmate')\<rparr>
          in (Template ''view_inmate.html'' [inmate'], s'))"


section \<open>Searching for inmates\<close>

text \<open>
  \<^verbatim>\<open>search_inmates\<close> serves GET and POST. The form object and the two provider
  queries of \<^verbatim>\<open>models.Inmate\<close> are not among the sources, so the form is the
  record of what the handler reads from it (the outcome of \<^verbatim>\<open>form.validate()\<close>
  and the three data fields) and the queries are parameters that return the
  list \<^verbatim>\<open>inmates.all()\<close> yields together with the provider errors.
  \<^verbatim>\<open>first and last\<close> is Python truthiness: both present and non-empty.
  The second component of the state is the list of flashed messages.
\<close>

datatype http_method = GET | POST

record InmateSearchForm =
  f_valid :: bool
  f_first_name :: "string option"
  f_last_name :: "string option"
  f_id :: "int option"

definition truthy :: "string option \<Rightarrow> bool" where
  "truthy v = (case v of None \<Rightarrow> False | Some x \<Rightarrow> x \<noteq> [])"

type_synonym flash = "string \<times> string"

definition run_search ::
  "(string option \<Rightarrow> string option \<Rightarrow> Inmate list \<times> string list) \<Rightarrow>
   (int option \<Rightarrow> Inmate list \<times> string list) \<Rightarrow>
   InmateSearchForm \<Rightarrow> Inmate list \<times> string list" where
  "run_search query_by_name query_by_inmate_id form =
     (if truthy (f_first_name form) \<and> truthy (f_last_name form)
      then query_by_name (f_first_name form) (f_last_name form)
      else query_by_inmate_id (f_id form))"

definition search_inmates ::
  "(string option \<Rightarrow> string option \<Rightarrow> Inmate list \<times> string list) \<Rightarrow>
   (int option \<Rightarrow> Inmate list \<times> string list) \<Rightarrow>
   http_method \<Rightarrow> InmateSearchForm \<Rightarrow> flash list \<Rightarrow> response \<times> flash list" where
  "search_inmates query_by_name query_by_inmate_id method form flashed =
     (if method = GET then (Template ''search_inmates.html'' [], flashed)
      else if f_valid form then
        let (inmates, errors) = run_search query_by_name query_by_inmate_id form;
            flashed' = flashed @ map (\<lambda>e. (e, ''alert-warning'')) errors
        in (case inmates of
              [] \<Rightarrow> (Template ''search_inmates.html'' [],
                     flashed' @ [(''no inmates matched your search'', ''alert-warning'')])
            | [inmate] \<Rightarrow> (RedirectTo ''view_inmate'' (i_autoid inmate), flashed')
            | _ \<Rightarrow> (Template ''list_inmates.html'' inmates, flashed'))
      else (Template ''search_inmates.html'' [], flashed))"

section \<open>Request information\<close>

text \<open>
  Python's \<^verbatim>\<open>str(n)\<close> for a natural number and \<^verbatim>\<open>'%08d' % n\<close> for an
  integer: decimal digits, padded with zeros to eight characters, the sign
  counting as one of them.
\<close>

function str_nat :: "nat \<Rightarrow> string" where
  "str_nat n = (if n < 10 then [''0123456789'' ! n]
                else str_nat (n div 10) @ [''0123456789'' ! (n mod 10)])"
  by pat_completeness auto
termination
  by (relation "measure id") auto

declare str_nat.simps [simp del]

definition zfill :: "nat \<Rightarrow> string \<Rightarrow> string" where
  "zfill w ds = replicate (w - length ds) CHR ''0'' @ ds"

definition fmt_08d :: "int \<Rightarrow> string" where
  "fmt_08d n =
     (if n < 0 then CHR ''-'' # zfill 7 (str_nat (nat (- n)))
      else zfill 8 (str_nat (nat n)))"

text \<open>
  \<^verbatim>\<open>unit and unit.street1 or 'N/A'\<close>: without a unit, or with an attribute
  that is null or empty, the text is \<^verbatim>\<open>N/A\<close>.
\<close>

definition or_NA :: "string option \<Rightarrow> string" where
  "or_NA v = (case v of None \<Rightarrow> ''N/A'' | Some x \<Rightarrow> if x = [] then ''N/A'' else x)"

text \<open>
  \<^verbatim>\<open>request.inmate\<close> follows the reference of the request; a null reference
  or one that no inmate row answers gives \<^verbatim>\<open>None\<close>.
  \<^verbatim>\<open>Request.query.filter_by(autoid=autoid).first()\<close> is the first row of the
  table with that \<^verbatim>\<open>autoid\<close>.
\<close>

definition request_inmate :: "db \<Rightarrow> Request \<Rightarrow> Inmate option" where
  "request_inmate s r = (case r_inmate r of None \<Rightarrow> None | Some k \<Rightarrow> inmates s k)"

definition get_request :: "db \<Rightarrow> nat \<Rightarrow> Request option" where
  "get_request s autoid = find (\<lambda>r. r_autoid r = autoid) (requests s)"

definition request_info :: "nat \<Rightarrow> db \<Rightarrow> response" where
  "request_info autoid s =
     (case get_request s autoid of
        None \<Rightarrow> Abort 404
      | Some request \<Rightarrow>
          (case request_inmate s request of
             None \<Rightarrow> Body ''Request does not have an associated inmate'' 400
           | Some inmate \<Rightarrow>
               Jsonify
                 [(''inmate_jurisdiction'', JStr (i_jurisdiction inmate)),
                  (''inmate_name'', JStr (i_last_name inmate @ '', '' @ i_first_name inmate)),
                  (''inmate_id'', JStr (fmt_08d (i_id inmate))),
                  (''package_id'', JInt (int (r_autoid request))),
                  (''unit_name'',
                     JStr (case i_unit inmate of None \<Rightarrow> ''N/A''
                           | Some unit \<Rightarrow> or_NA (u_street1 unit))),
                  (''unit_shipping_method'',
                     JStr (case i_unit inmate of None \<Rightarrow> ''N/A''
                           | Some unit \<Rightarrow> or_NA (u_shipping_method unit)))]))"

section \<open>Adding a request\<close>

text \<open>
  \<^verbatim>\<open>datetime.strptime(date_str, '%Y-%m-%d')\<close> belongs to the Python library.
  It turns the format into the regular expression
  \<^verbatim>\<open>(?P<Y>\d\d\d\d)-(?P<m>1[0-2]|0[1-9]|[1-9])-(?P<d>3[0-1]|[1-2]\d|0[1-9]|[1-9]| [1-9])\<close>,
  matches it at the start of the text, raises \<^verbatim>\<open>ValueError\<close> when there is no
  match or when text remains behind the match, and raises it as well when year,
  month and day are no date of the calendar (years run from 1 to 9999). The
  alternatives of a group are tried in the order written; here the first one
  that matches is also the only one after which the rest of the expression can
  match, so no backtracking is modelled. Characters are single bytes, among
  which \<^verbatim>\<open>\d\<close> matches the ten ASCII digits only. \<open>None\<close> stands for the
  \<^verbatim>\<open>ValueError\<close>.
\<close>

definition digit_of :: "char \<Rightarrow> nat option" where
  "digit_of c = map_of
     [(CHR ''0'', 0), (CHR ''1'', 1), (CHR ''2'', 2), (CHR ''3'', 3), (CHR ''4'', 4),
      (CHR ''5'', 5), (CHR ''6'', 6), (CHR ''7'', 7), (CHR ''8'', 8), (CHR ''9'', 9)] c"

definition next_digit :: "string \<Rightarrow> nat option" where
  "next_digit t = (case t of [] \<Rightarrow> None | b # _ \<Rightarrow> digit_of b)"

definition match_Y :: "string \<Rightarrow> (nat \<times> string) option" where
  "match_Y s =
     (case s of
        a # b # c # d # rest \<Rightarrow>
          (case (digit_of a, digit_of b, digit_of c, digit_of d) of
             (Some w, Some x, Some y, Some z) \<Rightarrow> Some (1000 * w + 100 * x + 10 * y + z, rest)
           | _ \<Rightarrow> None)
      | _ \<Rightarrow> None)"

definition match_m :: "string \<Rightarrow> (nat \<times> string) option" where
  "match_m s =
     (case s of
        [] \<Rightarrow> None
      | a # t \<Rightarrow>
          (case digit_of a of
             None \<Rightarrow> None
           | Some x \<Rightarrow>
               (case next_digit t of
                  Some y \<Rightarrow>
                    if x = 1 \<and> y \<le> 2 then Some (10 + y, tl t)
                    else if x = 0 \<and> 1 \<le> y then Some (y, tl t)
                    else if 1 \<le> x then Some (x, t)
                    else None
                | None \<Rightarrow> if 1 \<le> x then Some (x, t) else None)))"

definition match_d :: "string \<Rightarrow> (nat \<times> string) option" where
  "match_d s =
     (case s of
        [] \<Rightarrow> None
      | a # t \<Rightarrow>
          (case digit_of a of
             None \<Rightarrow>
               (if a = CHR '' '' then
                  (case next_digit t of
                     Some y \<Rightarrow> if 1 \<le> y then Some (y, tl t) else None
                   | None \<Rightarrow> None)
                else None)
           | Some x \<Rightarrow>
               (case next_digit t of
                  Some y \<Rightarrow>
                    if x = 3 \<and> y \<le> 1 then Some (30 + y, tl t)
                    else if x = 1 \<or> x = 2 then Some (10 * x + y, tl t)
                    else if x = 0 \<and> 1 \<le> y then Some (y, tl t)
                    else if 1 \<le> x then Some (x, t)
                    else None
                | None \<Rightarrow> if 1 \<le> x then Some (x, t) else None)))"

definition match_dash :: "string \<Rightarrow> string option" where
  "match_dash s = (case s of [] \<Rightarrow> None | a # t \<Rightarrow> if a = CHR ''-'' then Some t else None)"

definition is_leap :: "nat \<Rightarrow> bool" where
  "is_leap y = (if y mod 400 = 0 then True else if y mod 100 = 0 then False else y mod 4 = 0)"

definition days_in_month :: "nat \<Rightarrow> nat \<Rightarrow> nat" where
  "days_in_month y m =
     (if m = 2 then (if is_leap y then 29 else 28)
      else if m = 4 \<or> m = 6 \<or> m = 9 \<or> m = 11 then 30 else 31)"

definition make_date :: "nat \<Rightarrow> nat \<Rightarrow> nat \<Rightarrow> date option" where
  "make_date y m d =
     (if 1 \<le> y \<and> y \<le> 9999 \<and> 1 \<le> m \<and> m \<le> 12 \<and> 1 \<le> d \<and> d \<le> days_in_month y m
      then Some (Date y m d) else None)"

definition strptime_Ymd :: "string \<Rightarrow> date option" where
  "strptime_Ymd s =
     (case match_Y s of None \<Rightarrow> None | Some (y, s1) \<Rightarrow>
      (case match_dash s1 of None \<Rightarrow> None | Some s2 \<Rightarrow>
       (case match_m s2 of None \<Rightarrow> None | Some (m, s3) \<Rightarrow>
        (case match_dash s3 of None \<Rightarrow> None | Some s4 \<Rightarrow>
         (case match_d s4 of None \<Rightarrow> None | Some (d, s5) \<Rightarrow>
            if s5 = [] then make_date y m d else None)))))"


text \<open>
  \<^verbatim>\<open>add_request\<close>: the inmate is looked up (404 when there is none); the
  field \<^verbatim>\<open>postmarkdate\<close> of the posted form, or the empty text when it is
  missing, is parsed, and a \<^verbatim>\<open>ValueError\<close> ends the call with the 400 body.
  Otherwise the date is put into the browser session in the text form that
  \<^verbatim>\<open>strftime\<close> gives it, the action defaults to \<^verbatim>\<open>Filled\<close>, the Request is
  built with \<^verbatim>\<open>date.today()\<close> and appended to the inmate's requests, and the
  session is committed, which gives the row its \<^verbatim>\<open>autoid\<close>. The state is the
  pair of the stored rows and the browser session. \<open>strftime\<close>, the rendering
  of \<^verbatim>\<open>request.html\<close> and today's date are parameters. Whether the store
  accepts an action text other than the two of the enumeration is decided by
  the model classes and not modelled.
\<close>

definition new_autoid :: "Request list \<Rightarrow> nat" where
  "new_autoid rs = Suc (fold max (map r_autoid rs) 0)"

type_synonym flask_session = "string \<rightharpoonup> string"

definition add_request ::
  "(date \<Rightarrow> string) \<Rightarrow> (Request \<Rightarrow> string) \<Rightarrow> date \<Rightarrow> nat \<Rightarrow> (string \<rightharpoonup> string) \<Rightarrow>
   db \<times> flask_session \<Rightarrow> response \<times> db \<times> flask_session" where
  "add_request strftime render_request today inmate_autoid form st =
     (case inmates (fst st) inmate_autoid of
        None \<Rightarrow> (Abort 404, st)
      | Some inmate \<Rightarrow>
          (case strptime_Ymd (case form ''postmarkdate'' of None \<Rightarrow> '''' | Some v \<Rightarrow> v) of
             None \<Rightarrow> (Body ''Please enter the USPS postmark date on the envelope.'' 400, st)
           | Some postmarkdate \<Rightarrow>
               let session' = (snd st)(''postmarkdate'' \<mapsto> strftime postmarkdate);
                   action = (case form ''action'' of None \<Rightarrow> ''Filled'' | Some a \<Rightarrow> a);
                   request = \<lparr>r_autoid = new_autoid (requests (fst st)), r_action = action,
                              r_date_postmarked = postmarkdate, r_date_processed = today,
                              r_inmate = Some inmate_autoid\<rparr>;
                   s' = (fst st)\<lparr>requests := requests (fst st) @ [request]\<rparr>
               in (Jsonify [(''request_autoid'', JStr (str_nat (r_autoid request))),
                            (''request'', JStr (render_request request))],
                   s', session')))"


section \<open>Shipping requests\<close>

text \<open>
  \<^verbatim>\<open>ship_requests\<close> reads the form (\<^verbatim>\<open>flask_forms.Shipment\<close> is not among the
  sources: the record holds the outcome of \<^verbatim>\<open>form.validate()\<close> and the data of
  the fields read). \<open>sf_request_ids\<close> is \<^verbatim>\<open>set(form.request_ids.data)\<close>, given
  as the list of its elements in the order in which the set yields them.

  \<^verbatim>\<open>requests = map(get_request_from_autoid, request_ids)\<close> is an iterator: it
  looks a Request up (404 when there is none) only when the next element is
  asked for, and it yields every element once. Two consumers share it.
  \<^verbatim>\<open>next(r.inmate.unit for r in requests if r.inmate.unit is not None)\<close> draws
  elements until one has an inmate with a unit, and raises \<^verbatim>\<open>StopIteration\<close>
  when the iterator ends first; \<open>first_unit\<close> returns that unit together with
  what the iterator has left. The \<^verbatim>\<open>for\<close> loop then draws what is left;
  \<open>check_rest\<close> returns the rows as \<^verbatim>\<open>try_fetch_update\<close> (the parameter
  \<open>fetch\<close>) changed them, and again what the iterator has left, which at the
  end of a loop is nothing. Reading an attribute of a missing inmate raises
  \<^verbatim>\<open>AttributeError\<close>. The text of the first message has no replacement
  field, so \<^verbatim>\<open>format\<close> leaves it as it is.

  Modelled from the spec: the constructor \<^verbatim>\<open>models.Shipment\<close>, which
  persists one Shipment record linking the Requests it is given, with the
  weight, postage and tracking fields from the submitted form. It is given the
  same iterator, so the Shipment links the Requests that the iterator still
  yields. (An object-relational layer that refuses an iterator where it
  expects a list would raise at this point instead, and no Shipment would be
  stored.) The handler commits only after that; on every earlier return the
  stored rows are the ones the call started with, as far as the handler goes:
  what \<^verbatim>\<open>try_fetch_update\<close> changed stays uncommitted in the session.
\<close>

record ShipmentForm =
  sf_valid :: bool
  sf_request_ids :: "nat list"
  sf_weight :: int
  sf_postage :: int
  sf_tracking_code :: string

fun first_unit :: "db \<Rightarrow> nat list \<Rightarrow> response + (Unit \<times> nat list)" where
  "first_unit s [] = Inl (Raised ''StopIteration'')"
| "first_unit s (autoid # rest) =
     (case get_request s autoid of
        None \<Rightarrow> Inl (Abort 404)
      | Some r \<Rightarrow>
          (case request_inmate s r of
             None \<Rightarrow> Inl (Raised ''AttributeError'')
           | Some inmate \<Rightarrow>
               (case i_unit inmate of
                  None \<Rightarrow> first_unit s rest
                | Some unit \<Rightarrow> Inr (unit, rest))))"

fun check_rest :: "(Inmate \<Rightarrow> Inmate) \<Rightarrow> Unit \<Rightarrow> db \<Rightarrow> nat list \<Rightarrow> response + (db \<times> nat list)" where
  "check_rest fetch unit s [] = Inr (s, [])"
| "check_rest fetch unit s (autoid # rest) =
     (case get_request s autoid of
        None \<Rightarrow> Inl (Abort 404)
      | Some request \<Rightarrow>
          (case r_inmate request of
             None \<Rightarrow> Inl (Raised ''AttributeError'')
           | Some k \<Rightarrow>
               (case inmates s k of
                  None \<Rightarrow> Inl (Raised ''AttributeError'')
                | Some inmate \<Rightarrow>
                    let inmate' = fetch inmate;
                        s' = s\<lparr>inmates := (inmates s)(k \<mapsto> inmate')\<rparr>
                    in (case i_unit inmate' of
                          None \<Rightarrow> Inl (Body ''inmate for request %d is unassigned'' 400)
                        | Some u \<Rightarrow>
                            if u_name u \<noteq> u_name unit
                            then Inl (Body (''inmates are not all assigned to '' @ [CHR 0x27]
                                              @ u_name unit @ [CHR 0x27] @ '' unit'') 400)
                            else check_rest fetch unit s' rest))))"

definition ship_requests :: "(Inmate \<Rightarrow> Inmate) \<Rightarrow> date \<Rightarrow> ShipmentForm \<Rightarrow> db \<Rightarrow> response \<times> db" where
  "ship_requests fetch today form s =
     (if sf_valid form then
        (case first_unit s (sf_request_ids form) of
           Inl early \<Rightarrow> (early, s)
         | Inr (unit, iterator) \<Rightarrow>
             (case check_rest fetch unit s iterator of
                Inl early \<Rightarrow> (early, s)
              | Inr (s', iterator') \<Rightarrow>
                  (Jsonify [],
                   s'\<lparr>shipments := shipments s' @
                        [\<lparr>s_requests = iterator', s_date_shipped = today, s_unit = unit,
                          s_weight = sf_weight form, s_postage = sf_postage form,
                          s_tracking_code = sf_tracking_code form\<rparr>]\<rparr>)))
      else (Body ''form data invalid'' 400, s))"

section \<open>Metrics\<close>

text \<open>
  The three metrics handlers each run one SQL statement on the SQLite store and
  split the rows into two parallel lists for \<^verbatim>\<open>jsonify\<close>. A date column holds
  the ISO text of the date (four digits of year, two of month, two of day);
  \<^verbatim>\<open>strftime('%Y', d)\<close> is its year text and \<^verbatim>\<open>strftime('%Y-%m', d)\<close> its
  year and month. Texts compare as SQLite's default collation compares them:
  byte by byte, a proper prefix before the longer text, which is the
  lexicographic order of strings. The condition of every \<^verbatim>\<open>WHERE\<close> clause
  compares the \<^emph>\<open>year\<close> text with \<^verbatim>\<open>'2006-06'\<close>.
\<close>

definition sql_strftime_Y :: "date \<Rightarrow> string" where
  "sql_strftime_Y d = zfill 4 (str_nat (year d))"

definition sql_strftime_Ym :: "date \<Rightarrow> string" where
  "sql_strftime_Ym d = sql_strftime_Y d @ ''-'' @ zfill 2 (str_nat (month d))"

definition isoformat :: "date \<Rightarrow> string" where
  "isoformat d = sql_strftime_Ym d @ ''-'' @ zfill 2 (str_nat (day d))"

definition since_cutoff :: "date \<Rightarrow> bool" where
  "since_cutoff d = (''2006-06'' \<le> sql_strftime_Y d)"

text \<open>
  \<^verbatim>\<open>GROUP BY\<close> collects the rows with equal key. \<^verbatim>\<open>ORDER BY\<close> a column that
  is neither grouped nor aggregated sorts the groups by the value that column
  has in one row of each group; SQLite leaves open which row, so the choice is
  the parameter \<open>bare\<close>. \<^verbatim>\<open>min\<close> over the texts of a group is their least.
  Columns are taken to be non-null. \<^verbatim>\<open>r[1] // 16\<close> is Python's floor
  division on integers, which is \<open>div\<close> on \<open>int\<close>.
\<close>

definition group_by :: "('r \<Rightarrow> 'k) \<Rightarrow> 'r list \<Rightarrow> ('k \<times> 'r list) list" where
  "group_by key rows = map (\<lambda>k. (k, filter (\<lambda>r. key r = k) rows)) (remdups (map key rows))"

definition sql_min :: "string list \<Rightarrow> string option" where
  "sql_min xs = (case xs of [] \<Rightarrow> None | x # rest \<Rightarrow> Some (fold min rest x))"

definition request_counts :: "(Request list \<Rightarrow> Request) \<Rightarrow> db \<Rightarrow> string list \<times> nat list" where
  "request_counts bare s =
     (let rows = filter (\<lambda>r. r_action r = ''Filled'' \<and> since_cutoff (r_date_postmarked r))
                   (requests s);
          groups = sort_key (\<lambda>g. isoformat (r_date_postmarked (bare (snd g))))
                     (group_by (\<lambda>r. sql_strftime_Ym (r_date_postmarked r)) rows)
      in (map fst groups, map (\<lambda>g. length (snd g)) groups))"

definition new_request_counts :: "db \<Rightarrow> string list \<times> nat list" where
  "new_request_counts s =
     (let rows = filter (\<lambda>r. r_action r = ''Filled'' \<and> since_cutoff (r_date_postmarked r))
                   (requests s);
          firsts = List.map_filter
                     (\<lambda>g. sql_min (map (\<lambda>r. sql_strftime_Ym (r_date_postmarked r)) (snd g)))
                     (group_by r_inmate rows);
          groups = sort_key fst (group_by (\<lambda>yearmonth. yearmonth) firsts)
      in (map fst groups, map (\<lambda>g. length (snd g)) groups))"

definition shipping_volume :: "(Shipment list \<Rightarrow> Shipment) \<Rightarrow> db \<Rightarrow> string list \<times> int list" where
  "shipping_volume bare s =
     (let rows = filter (\<lambda>x. since_cutoff (s_date_shipped x)) (shipments s);
          groups = sort_key (\<lambda>g. isoformat (s_date_shipped (bare (snd g))))
                     (group_by (\<lambda>x. sql_strftime_Ym (s_date_shipped x)) rows)
      in (map fst groups, map (\<lambda>g. sum_list (map s_weight (snd g)) div 16) groups))"


section \<open>Schemas\<close>

text \<open>
  \<^verbatim>\<open>ibp/schemas.py\<close> declares marshmallow schemas; \<^verbatim>\<open>CommentSchema\<close> and
  \<^verbatim>\<open>RequestSchema\<close> are embedded field by field, in the order declared.
  Deserialisation is the library's \<^verbatim>\<open>Schema.load\<close> on an input mapping, with
  \<^verbatim>\<open>unknown="EXCLUDE"\<close> as the module's instances set it: fields marked
  \<^verbatim>\<open>dump_only\<close> and keys that no field declares are passed over; a key that is
  absent is an error for a required field and passed over otherwise; a null
  value is an error (no field here allows it); otherwise the field converts
  the value and then runs its validators, collecting their messages. The
  messages are the library's defaults. All errors are gathered per field
  name, and if there is any the load raises \<^verbatim>\<open>ValidationError\<close> with them
  (\<open>Inl\<close>). Text fields accept text only; the conversions of the other field
  types are the parameter \<open>lib\<close>. The schemas attach validators to text fields
  only, so a validator has nothing to say about other values.
\<close>

datatype ftype = F_Int | F_Str | F_Date | F_DateTime

datatype validator = Length_min nat | OneOf "string list"

record Field =
  fld_type :: ftype
  fld_validate :: "validator list"
  fld_required :: bool
  fld_dump_only :: bool

type_synonym schema = "(string \<times> Field) list"

definition CommentSchema :: schema where
  "CommentSchema =
     [(''index'', \<lparr>fld_type = F_Int, fld_validate = [], fld_required = False, fld_dump_only = True\<rparr>),
      (''datetime'', \<lparr>fld_type = F_DateTime, fld_validate = [], fld_required = False, fld_dump_only = True\<rparr>),
      (''author'', \<lparr>fld_type = F_Str, fld_validate = [Length_min 1], fld_required = True, fld_dump_only = False\<rparr>),
      (''body'', \<lparr>fld_type = F_Str, fld_validate = [Length_min 1], fld_required = True, fld_dump_only = False\<rparr>)]"

definition RequestSchema :: schema where
  "RequestSchema =
     [(''index'', \<lparr>fld_type = F_Int, fld_validate = [], fld_required = False, fld_dump_only = True\<rparr>),
      (''date_postmarked'', \<lparr>fld_type = F_Date, fld_validate = [], fld_required = True, fld_dump_only = False\<rparr>),
      (''action'', \<lparr>fld_type = F_Str, fld_validate = [OneOf [''Tossed'', ''Filled'']], fld_required = True, fld_dump_only = False\<rparr>)]"

datatype pyvalue = PStr string | PInt int | PDate date | PDateTime datetime

fun invalid_message :: "ftype \<Rightarrow> string" where
  "invalid_message F_Int = ''Not a valid integer.''"
| "invalid_message F_Str = ''Not a valid string.''"
| "invalid_message F_Date = ''Not a valid date.''"
| "invalid_message F_DateTime = ''Not a valid datetime.''"

fun deserialize :: "(ftype \<Rightarrow> json \<Rightarrow> pyvalue option) \<Rightarrow> ftype \<Rightarrow> json \<Rightarrow> string + pyvalue" where
  "deserialize lib F_Str (JStr s) = Inr (PStr s)"
| "deserialize lib F_Str v = Inl (invalid_message F_Str)"
| "deserialize lib t v = (case lib t v of Some x \<Rightarrow> Inr x | None \<Rightarrow> Inl (invalid_message t))"

fun join :: "string \<Rightarrow> string list \<Rightarrow> string" where
  "join sep [] = ''''"
| "join sep [x] = x"
| "join sep (x # xs) = x @ sep @ join sep xs"

fun run_validator :: "validator \<Rightarrow> pyvalue \<Rightarrow> string option" where
  "run_validator (Length_min n) (PStr s) =
     (if length s < n then Some (''Shorter than minimum length '' @ str_nat n @ ''.'') else None)"
| "run_validator (OneOf choices) (PStr s) =
     (if s \<in> set choices then None
      else Some (''Must be one of: '' @ join '', '' choices @ ''.''))"
| "run_validator v x = None"

datatype outcome = Skip | Invalid "string list" | Loaded pyvalue

definition load_field :: "(ftype \<Rightarrow> json \<Rightarrow> pyvalue option) \<Rightarrow> Field \<Rightarrow> json option \<Rightarrow> outcome" where
  "load_field lib f raw =
     (if fld_dump_only f then Skip
      else case raw of
        None \<Rightarrow> if fld_required f then Invalid [''Missing data for required field.''] else Skip
      | Some JNull \<Rightarrow> Invalid [''Field may not be null.'']
      | Some v \<Rightarrow>
          (case deserialize lib (fld_type f) v of
             Inl msg \<Rightarrow> Invalid [msg]
           | Inr x \<Rightarrow>
               (case List.map_filter (\<lambda>c. run_validator c x) (fld_validate f) of
                  [] \<Rightarrow> Loaded x
                | msgs \<Rightarrow> Invalid msgs)))"

fun load_fields ::
  "(ftype \<Rightarrow> json \<Rightarrow> pyvalue option) \<Rightarrow> schema \<Rightarrow> (string \<rightharpoonup> json) \<Rightarrow>
   (string \<times> string list) list \<times> (string \<times> pyvalue) list" where
  "load_fields lib [] data = ([], [])"
| "load_fields lib ((name, f) # rest) data =
     (case load_fields lib rest data of
        (errors, loaded) \<Rightarrow>
          (case load_field lib f (data name) of
             Skip \<Rightarrow> (errors, loaded)
           | Invalid msgs \<Rightarrow> ((name, msgs) # errors, loaded)
           | Loaded x \<Rightarrow> (errors, (name, x) # loaded)))"

definition load ::
  "(ftype \<Rightarrow> json \<Rightarrow> pyvalue option) \<Rightarrow> schema \<Rightarrow> (string \<rightharpoonup> json) \<Rightarrow>
   (string \<times> string list) list + (string \<times> pyvalue) list" where
  "load lib schema data =
     (case load_fields lib schema data of
        ([], loaded) \<Rightarrow> Inr loaded
      | (errors, loaded) \<Rightarrow> Inl errors)"


section \<open>Example data\<close>

definition huntsville :: Unit where
  "huntsville = \<lparr>u_autoid = 1, u_name = ''Huntsville'',
     u_street1 = Some ''815 12th Street'', u_shipping_method = Some ''Box''\<rparr>"

definition inmate_of :: "nat \<Rightarrow> Unit option \<Rightarrow> datetime list \<Rightarrow> Inmate" where
  "inmate_of k u ls = \<lparr>i_autoid = k, i_jurisdiction = ''Texas'', i_id = 1234 + int k,
     i_first_name = ''John'', i_last_name = ''Doe'', i_unit = u, i_lookups = ls\<rparr>"

definition request_of :: "nat \<Rightarrow> nat option \<Rightarrow> date \<Rightarrow> Request" where
  "request_of k i d = \<lparr>r_autoid = k, r_action = ''Filled'', r_date_postmarked = d,
     r_date_processed = d, r_inmate = i\<rparr>"

definition shipment_of :: "date \<Rightarrow> int \<Rightarrow> Shipment" where
  "shipment_of d w = \<lparr>s_requests = [], s_date_shipped = d, s_unit = huntsville,
     s_weight = w, s_postage = 500, s_tracking_code = ''''\<rparr>"


definition form_of :: "nat list \<Rightarrow> ShipmentForm" where
  "form_of ids = \<lparr>sf_valid = True, sf_request_ids = ids, sf_weight = 32, sf_postage = 500,
     sf_tracking_code = ''9400''\<rparr>"

definition may_june :: db where
  "may_june = \<lparr>inmates = Map.empty, requests = [],
     shipments = [shipment_of (Date 2023 5 10) 10, shipment_of (Date 2023 6 2) 40,
                  shipment_of (Date 2023 5 20) 10]\<rparr>"

section \<open>Auxiliary facts\<close>

lemmas strptime_defs = strptime_Ymd_def match_Y_def match_m_def match_d_def match_dash_def
  make_date_def days_in_month_def is_leap_def digit_of_def next_digit_def


lemma str_nat_digits: "set (str_nat n) \<subseteq> set ''0123456789''"
proof (induction n rule: str_nat.induct)
  case (1 n)
  show ?case
  proof (cases "n < 10")
    case True
    then have "''0123456789'' ! n \<in> set ''0123456789''"
      by (intro nth_mem) simp
    with True show ?thesis
      by (subst str_nat.simps) simp
  next
    case False
    have "n mod 10 < length ''0123456789''" by simp
    then have "''0123456789'' ! (n mod 10) \<in> set ''0123456789''"
      by (rule nth_mem)
    with False 1 show ?thesis
      by (subst str_nat.simps) simp
  qed
qed

lemma no_dash_in_year: "CHR ''-'' \<notin> set (sql_strftime_Y d)"
proof -
  have "set (sql_strftime_Y d) \<subseteq> insert CHR ''0'' (set (str_nat (year d)))"
    by (auto simp: sql_strftime_Y_def zfill_def)
  also have "\<dots> \<subseteq> set ''0123456789''"
    using str_nat_digits [of "year d"] by auto
  finally show ?thesis by auto
qed

lemma year_of_month_text:
  "takeWhile (\<lambda>c. c \<noteq> CHR ''-'') (sql_strftime_Ym d) = sql_strftime_Y d"
proof -
  have "takeWhile (\<lambda>c. c \<noteq> CHR ''-'')
          (sql_strftime_Y d @ CHR ''-'' # zfill 2 (str_nat (month d)))
      = takeWhile (\<lambda>c. c \<noteq> CHR ''-'') (sql_strftime_Y d)"
    by (rule takeWhile_tail) simp
  also have "\<dots> = sql_strftime_Y d"
    using no_dash_in_year [of d] by (simp only: takeWhile_eq_all_conv) blast
  finally show ?thesis
    by (simp add: sql_strftime_Ym_def)
qed

lemma same_month_same_year:
  assumes "sql_strftime_Ym a = sql_strftime_Ym b"
  shows "sql_strftime_Y a = sql_strftime_Y b"
  using year_of_month_text [of a] year_of_month_text [of b] assms
  by (simp only:)

lemma group_by_member:
  "(k, g) \<in> set (group_by key rows) \<longleftrightarrow> k \<in> key ` set rows \<and> g = filter (\<lambda>r. key r = k) rows"
  by (auto simp: group_by_def)

lemma month_rows_all:
  assumes "r \<in> set rows" and "since_cutoff (f r)"
  shows "filter (\<lambda>x. sql_strftime_Ym (f x) = sql_strftime_Ym (f r)) (filter (\<lambda>x. since_cutoff (f x)) rows)
       = filter (\<lambda>x. sql_strftime_Ym (f x) = sql_strftime_Ym (f r)) rows"
proof -
  have "since_cutoff (f x)" if "sql_strftime_Ym (f x) = sql_strftime_Ym (f r)" for x
    using that assms(2) same_month_same_year [of "f x" "f r"] by (simp add: since_cutoff_def)
  then show ?thesis
    by (auto simp: filter_filter intro!: filter_cong)
qed

lemma floor_sixteenth: "16 * (t div 16) \<le> (t::int) \<and> t < 16 * (t div 16) + 16"
  by presburger

lemma cutoff_2006: "since_cutoff (Date 2006 m d) = False"
  by (simp add: since_cutoff_def sql_strftime_Y_def zfill_def str_nat.simps)

lemma cutoff_2007: "since_cutoff (Date 2007 m d) = True"
  by (simp add: since_cutoff_def sql_strftime_Y_def zfill_def str_nat.simps)

lemma load_fields_unnamed:
  "name \<notin> fst ` set schema \<Longrightarrow> map_of (fst (load_fields lib schema data)) name = None"
proof (induction schema)
  case Nil
  show ?case by simp
next
  case (Cons entry rest)
  obtain n f where entry: "entry = (n, f)" by (cases entry)
  obtain errors loaded where rest: "load_fields lib rest data = (errors, loaded)"
    by (cases "load_fields lib rest data")
  from Cons entry rest show ?case
    by (cases "load_field lib f (data n)") auto
qed

lemma load_fields_invalid:
  assumes "distinct (map fst schema)" and "(name, f) \<in> set schema"
    and "load_field lib f (data name) = Invalid msgs"
  shows "map_of (fst (load_fields lib schema data)) name = Some msgs"
  using assms(1,2)
proof (induction schema)
  case Nil
  then show ?case by simp
next
  case (Cons entry rest)
  obtain n g where entry: "entry = (n, g)" by (cases entry)
  obtain errors loaded where rest: "load_fields lib rest data = (errors, loaded)"
    by (cases "load_fields lib rest data")
  show ?case
  proof (cases "(name, f) = entry")
    case True
    with entry rest assms(3) show ?thesis by simp
  next
    case False
    with Cons.prems entry have tail: "(name, f) \<in> set rest" and dist: "distinct (map fst rest)"
      and fresh: "n \<notin> fst ` set rest"
      by auto
    from tail fresh have "name \<noteq> n" by force
    moreover from Cons.IH [OF dist tail] rest
    have "map_of errors name = Some msgs" by simp
    ultimately show ?thesis
      using entry rest by (cases "load_field lib g (data n)") auto
  qed
qed

lemma load_fails:
  assumes "map_of (fst (load_fields lib schema data)) name = Some msgs"
  shows "load lib schema data = Inl (fst (load_fields lib schema data))"
proof -
  obtain errors loaded where parts: "load_fields lib schema data = (errors, loaded)"
    by (cases "load_fields lib schema data")
  with assms have "errors \<noteq> []" by auto
  with parts show ?thesis
    by (cases errors) (simp_all add: load_def)
qed

lemma load_names_field:
  assumes "distinct (map fst schema)" and "(name, f) \<in> set schema"
    and "load_field lib f (data name) = Invalid msgs"
  shows "\<exists>errors. load lib schema data = Inl errors \<and> map_of errors name = Some msgs"
  using load_fields_invalid [of schema name f lib data msgs, OF assms] load_fails by blast

lemma load_field_missing:
  "fld_required f \<Longrightarrow> \<not> fld_dump_only f \<Longrightarrow>
   load_field lib f None = Invalid [''Missing data for required field.'']"
  by (simp add: load_field_def)

lemma load_field_null:
  "\<not> fld_dump_only f \<Longrightarrow> load_field lib f (Some JNull) = Invalid [''Field may not be null.'']"
  by (simp add: load_field_def)

lemma load_field_not_text:
  "\<not> fld_dump_only f \<Longrightarrow> fld_type f = F_Str \<Longrightarrow> v \<noteq> JNull \<Longrightarrow> (\<And>a. v \<noteq> JStr a) \<Longrightarrow>
   load_field lib f (Some v) = Invalid [''Not a valid string.'']"
  by (cases v) (auto simp: load_field_def)

lemma load_field_choice:
  "\<not> fld_dump_only f \<Longrightarrow> fld_type f = F_Str \<Longrightarrow> fld_validate f = [OneOf [''Tossed'', ''Filled'']] \<Longrightarrow>
   a \<noteq> ''Tossed'' \<Longrightarrow> a \<noteq> ''Filled'' \<Longrightarrow>
   load_field lib f (Some (JStr a)) = Invalid [''Must be one of: Tossed, Filled.'']"
  by (simp add: load_field_def)

lemma load_field_empty:
  "\<not> fld_dump_only f \<Longrightarrow> fld_type f = F_Str \<Longrightarrow> fld_validate f = [Length_min 1] \<Longrightarrow>
   load_field lib f (Some (JStr [])) = Invalid [''Shorter than minimum length 1.'']"
  by (simp add: load_field_def str_nat.simps)

lemma request_schema_names_field:
  assumes "(name, f) \<in> set RequestSchema" and "load_field lib f (data name) = Invalid msgs"
  shows "\<exists>errors. load lib RequestSchema data = Inl errors \<and> map_of errors name = Some msgs"
proof -
  have "distinct (map fst RequestSchema)"
    by (simp add: RequestSchema_def)
  then show ?thesis
    using assms by (rule load_names_field)
qed

lemma comment_schema_names_field:
  assumes "(name, f) \<in> set CommentSchema" and "load_field lib f (data name) = Invalid msgs"
  shows "\<exists>errors. load lib CommentSchema data = Inl errors \<and> map_of errors name = Some msgs"
proof -
  have "distinct (map fst CommentSchema)"
    by (simp add: CommentSchema_def)
  then show ?thesis
    using assms by (rule load_names_field)
qed

lemma check_rest_exhausts:
  "check_rest fetch unit s ids = Inr (s', rest) \<Longrightarrow> rest = [] \<and> shipments s' = shipments s"
  by (induction fetch unit s ids rule: check_rest.induct)
     (auto simp: Let_def split: option.splits if_splits)

lemma first_unit_early: "first_unit s ids \<noteq> Inl (Jsonify body)"
  by (induction s ids rule: first_unit.induct) (auto split: option.splits)

lemma check_rest_early: "check_rest fetch unit s ids \<noteq> Inl (Jsonify body)"
  by (induction fetch unit s ids rule: check_rest.induct)
     (auto simp: Let_def split: option.splits)

lemma ship_requests_links_nothing:
  assumes "ship_requests fetch today form s = (Jsonify body, s')"
  shows "\<exists>shipment. shipments s' = shipments s @ [shipment] \<and> s_requests shipment = []
           \<and> s_weight shipment = sf_weight form \<and> s_postage shipment = sf_postage form"
  using assms
  by (auto simp: ship_requests_def first_unit_early check_rest_early
      split: if_splits sum.splits prod.splits dest: check_rest_exhausts)

lemma shipping_volume_bucket:
  assumes "(d, p) \<in> set (zip (fst (shipping_volume bare s)) (snd (shipping_volume bare s)))"
  shows "p = sum_list (map s_weight
               (filter (\<lambda>x. sql_strftime_Ym (s_date_shipped x) = d) (shipments s))) div 16
       \<and> 16 * p \<le> sum_list (map s_weight
               (filter (\<lambda>x. sql_strftime_Ym (s_date_shipped x) = d) (shipments s)))
       \<and> sum_list (map s_weight
               (filter (\<lambda>x. sql_strftime_Ym (s_date_shipped x) = d) (shipments s))) < 16 * p + 16"
proof -
  let ?rows = "filter (\<lambda>x. since_cutoff (s_date_shipped x)) (shipments s)"
  let ?key = "\<lambda>x. sql_strftime_Ym (s_date_shipped x)"
  let ?groups = "sort_key (\<lambda>g. isoformat (s_date_shipped (bare (snd g)))) (group_by ?key ?rows)"
  have "zip (fst (shipping_volume bare s)) (snd (shipping_volume bare s))
      = map (\<lambda>g. (fst g, sum_list (map s_weight (snd g)) div 16)) ?groups"
    by (simp add: shipping_volume_def Let_def zip_map_map zip_same_conv_map)
  with assms obtain g where g: "g \<in> set (group_by ?key ?rows)"
    and d: "d = fst g" and p: "p = sum_list (map s_weight (snd g)) div 16"
    by auto
  from g have "(fst g, snd g) \<in> set (group_by ?key ?rows)"
    by simp
  then have "fst g \<in> ?key ` set ?rows" and rows: "snd g = filter (\<lambda>x. ?key x = fst g) ?rows"
    by (simp_all only: group_by_member)
  with d obtain r where r: "r \<in> set (shipments s)" "since_cutoff (s_date_shipped r)"
    and k: "d = ?key r"
    by auto
  have "filter (\<lambda>x. ?key x = ?key r) ?rows = filter (\<lambda>x. ?key x = ?key r) (shipments s)"
    using r by (rule month_rows_all)
  then have all: "filter (\<lambda>x. ?key x = d) ?rows = filter (\<lambda>x. ?key x = d) (shipments s)"
    by (simp only: k)
  have "snd g = filter (\<lambda>x. ?key x = d) ?rows"
    using rows by (simp only: d)
  also note all
  finally have "p = sum_list (map s_weight
      (filter (\<lambda>x. ?key x = d) (shipments s))) div 16"
    by (simp only: p)
  then show ?thesis
    using floor_sixteenth by (simp only:)
qed

lemma group_by_keys: "map fst (group_by key rows) = remdups (map key rows)"
  by (simp add: group_by_def comp_def)

lemma shipping_volume_dates:
  "fst (shipping_volume bare s)
     = map fst (sort_key (\<lambda>g. isoformat (s_date_shipped (bare (snd g))))
         (group_by (\<lambda>x. sql_strftime_Ym (s_date_shipped x))
            (filter (\<lambda>x. since_cutoff (s_date_shipped x)) (shipments s))))"
  by (simp add: shipping_volume_def Let_def)

lemma sorted_groups_distinct:
  "distinct (map fst (sort_key f (group_by key rows)))"
proof -
  have "distinct (map fst (group_by key rows))"
    by (simp only: group_by_keys distinct_remdups)
  then show ?thesis
    by (simp add: distinct_map)
qed

lemma sorted_groups_keys:
  "set (map fst (sort_key f (group_by key rows))) = key ` set rows"
proof -
  have "set (map fst (sort_key f (group_by key rows))) = set (map fst (group_by key rows))"
    by simp
  also have "\<dots> = key ` set rows"
    by (simp only: group_by_keys set_remdups set_map)
  finally show ?thesis .
qed

lemma month_texts:
  "sql_strftime_Ym (Date 2023 5 dd) = ''2023-05''"
  "sql_strftime_Ym (Date 2023 6 dd) = ''2023-06''"
  "since_cutoff (Date 2023 mm dd)"
  by (simp_all add: sql_strftime_Ym_def sql_strftime_Y_def since_cutoff_def zfill_def str_nat.simps)

section \<open>Properties\<close>

text \<open>
  C1. The specification states that a call whose Requests all belong to inmates of one Unit
  creates one Shipment that references exactly those Requests. With a single
  Request, of an inmate of the Huntsville unit, the call succeeds and stores
  one Shipment with the weight and postage of the form, but the Shipment
  references no Request: the generator that looked for the unit has drawn the
  Request from the iterator that the constructor is given afterwards.
\<close>

theorem ship_requests_single:
  "ship_requests fetch today (form_of [5])
      \<lparr>inmates = [7 \<mapsto> inmate_of 7 (Some huntsville) []],
       requests = [request_of 5 (Some 7) (Date 2024 2 1)], shipments = []\<rparr>
   = (Jsonify [],
      \<lparr>inmates = [7 \<mapsto> inmate_of 7 (Some huntsville) []],
       requests = [request_of 5 (Some 7) (Date 2024 2 1)],
       shipments = [\<lparr>s_requests = [], s_date_shipped = today, s_unit = huntsville,
                      s_weight = 32, s_postage = 500, s_tracking_code = ''9400''\<rparr>]\<rparr>)"
  by (simp add: ship_requests_def form_of_def get_request_def request_inmate_def
      request_of_def inmate_of_def)

text \<open>
  C2. The specification states that the call answers 400 and creates no Shipment as soon as
  one Request's inmate has no Unit. With a single Request whose inmate has no
  Unit, the search for the first unit runs off the end of the iterator and the
  call ends in an uncaught \<^verbatim>\<open>StopIteration\<close>, not in a 400 (no Shipment is
  created). With two Requests, drawn in the order 5, 6, the first of an inmate
  without Unit and the second of an inmate of Huntsville, the search skips the
  first, the loop finds the iterator empty, and a Shipment is created.
\<close>

theorem ship_requests_unassigned:
  "ship_requests fetch today (form_of [5])
      \<lparr>inmates = [7 \<mapsto> inmate_of 7 None []],
       requests = [request_of 5 (Some 7) (Date 2024 2 1)], shipments = []\<rparr>
   = (Raised ''StopIteration'',
      \<lparr>inmates = [7 \<mapsto> inmate_of 7 None []],
       requests = [request_of 5 (Some 7) (Date 2024 2 1)], shipments = []\<rparr>)
   \<and> ship_requests fetch today (form_of [5, 6])
      \<lparr>inmates = [7 \<mapsto> inmate_of 7 None [], 8 \<mapsto> inmate_of 8 (Some huntsville) []],
       requests = [request_of 5 (Some 7) (Date 2024 2 1), request_of 6 (Some 8) (Date 2024 2 1)],
       shipments = []\<rparr>
   = (Jsonify [],
      \<lparr>inmates = [7 \<mapsto> inmate_of 7 None [], 8 \<mapsto> inmate_of 8 (Some huntsville) []],
       requests = [request_of 5 (Some 7) (Date 2024 2 1), request_of 6 (Some 8) (Date 2024 2 1)],
       shipments = [\<lparr>s_requests = [], s_date_shipped = today, s_unit = huntsville,
                      s_weight = 32, s_postage = 500, s_tracking_code = ''9400''\<rparr>]\<rparr>)"
  by (simp add: ship_requests_def form_of_def get_request_def request_inmate_def
      request_of_def inmate_of_def)

text \<open>
  C3. Viewing the detail page of an inmate that exists cuts the stored Lookup
  history down to its first two entries, in the order in which the list holds
  them, and then appends the new timestamp; the history afterwards has one
  entry more than the smaller of two and its former length, so at most three.
  The entries kept need not be the most recent ones. The list is held in the
  order in which the handler leaves it: starting from an empty history, views
  at the times 10, 20 and 30 leave \<open>[10, 20, 30]\<close>, and the view at time 40
  then leaves \<open>[10, 20, 40]\<close>, dropping the most recent stored entry and
  keeping the two oldest (\<open>view_inmate_drops_recent\<close>).
\<close>

theorem view_inmate_lookups:
  assumes "inmates s autoid = Some inmate"
  shows "\<exists>inmate'. inmates (snd (view_inmate now autoid s)) autoid = Some inmate'
           \<and> i_lookups inmate' = take 2 (i_lookups inmate) @ [now]
           \<and> length (i_lookups inmate') \<le> 3
           \<and> length (i_lookups inmate') = min 2 (length (i_lookups inmate)) + 1"
  using assms by (simp add: view_inmate_def Let_def min_def)

theorem view_inmate_lookups_witness:
  "i_lookups (the (inmates (snd (view_inmate 40 7
        \<lparr>inmates = [7 \<mapsto> inmate_of 7 None [30, 20, 10]], requests = [], shipments = []\<rparr>)) 7))
     = [30, 20, 40]"
  using view_inmate_lookups [of
      "\<lparr>inmates = [7 \<mapsto> inmate_of 7 None [30, 20, 10]], requests = [], shipments = []\<rparr>"
      7 "inmate_of 7 None [30, 20, 10]" 40]
  by (auto simp: inmate_of_def)

theorem view_inmate_drops_recent:
  "i_lookups (the (inmates (snd (view_inmate 30 7 (snd (view_inmate 20 7 (snd (view_inmate 10 7
       \<lparr>inmates = [7 \<mapsto> inmate_of 7 None []], requests = [], shipments = []\<rparr>)))))) 7))
     = [10, 20, 30]
   \<and> i_lookups (the (inmates (snd (view_inmate 40 7 (snd (view_inmate 30 7 (snd (view_inmate 20 7
       (snd (view_inmate 10 7
       \<lparr>inmates = [7 \<mapsto> inmate_of 7 None []], requests = [], shipments = []\<rparr>)))))))) 7))
     = [10, 20, 40]"
  by (simp add: view_inmate_def inmate_of_def Let_def)

text \<open>
  C4. For an inmate that exists: whenever the posted postmark date does not
  parse under \<^verbatim>\<open>%Y-%m-%d\<close> (no match, text left over, or no date of the
  calendar, as \<^verbatim>\<open>2024-02-30\<close>), \<^verbatim>\<open>add_request\<close> answers 400 with the
  message for the volunteer, and neither the stored rows nor the browser
  session change: no Request is created.
\<close>

theorem add_request_bad_date:
  assumes "inmates s inmate_autoid = Some inmate"
    and "strptime_Ymd (case form ''postmarkdate'' of None \<Rightarrow> '''' | Some v \<Rightarrow> v) = None"
  shows "add_request strftime render_request today inmate_autoid form (s, sess)
     = (Body ''Please enter the USPS postmark date on the envelope.'' 400, s, sess)"
  using assms by (simp add: add_request_def)

theorem add_request_bad_date_witness:
  "strptime_Ymd ''2024-02-30'' = None
   \<and> add_request (\<lambda>d. ''x'') (\<lambda>r. ''html'') (Date 2024 3 5) 7 [''postmarkdate'' \<mapsto> ''2024-02-30'']
       (\<lparr>inmates = [7 \<mapsto> inmate_of 7 None []], requests = [], shipments = []\<rparr>, Map.empty)
     = (Body ''Please enter the USPS postmark date on the envelope.'' 400,
        \<lparr>inmates = [7 \<mapsto> inmate_of 7 None []], requests = [], shipments = []\<rparr>, Map.empty)"
proof -
  have bad: "strptime_Ymd ''2024-02-30'' = None"
    by (simp add: strptime_defs)
  show ?thesis
    using bad add_request_bad_date [of
      "\<lparr>inmates = [7 \<mapsto> inmate_of 7 None []], requests = [], shipments = []\<rparr>" 7
      "inmate_of 7 None []" "[''postmarkdate'' \<mapsto> ''2024-02-30'']"
      "\<lambda>d. ''x''" "\<lambda>r. ''html''" "Date 2024 3 5" Map.empty]
    by simp
qed

text \<open>
  C5. For an inmate that exists, a postmark date that parses and a form without
  an \<^verbatim>\<open>action\<close> field, \<^verbatim>\<open>add_request\<close> appends exactly one Request to the
  table; its action is \<^verbatim>\<open>Filled\<close>, its \<^verbatim>\<open>date_processed\<close> is the date of the
  submission (\<^verbatim>\<open>date.today()\<close>), its postmark date is the parsed one and it
  belongs to the inmate.
\<close>

theorem add_request_default_action:
  assumes "inmates s inmate_autoid = Some inmate"
    and "strptime_Ymd (case form ''postmarkdate'' of None \<Rightarrow> '''' | Some v \<Rightarrow> v) = Some d"
    and "form ''action'' = None"
  shows "\<exists>body sess'.
      add_request strftime render_request today inmate_autoid form (s, sess)
        = (Jsonify body,
           s\<lparr>requests := requests s @
                [\<lparr>r_autoid = new_autoid (requests s), r_action = ''Filled'',
                  r_date_postmarked = d, r_date_processed = today,
                  r_inmate = Some inmate_autoid\<rparr>]\<rparr>,
           sess')"
  using assms by (simp add: add_request_def Let_def)

theorem add_request_default_action_witness:
  "requests (fst (snd (add_request (\<lambda>d. ''2024-02-01'') (\<lambda>r. ''html'') (Date 2024 3 5) 7
       [''postmarkdate'' \<mapsto> ''2024-02-01'']
       (\<lparr>inmates = [7 \<mapsto> inmate_of 7 None []], requests = [], shipments = []\<rparr>, Map.empty))))
     = [\<lparr>r_autoid = 1, r_action = ''Filled'', r_date_postmarked = Date 2024 2 1,
         r_date_processed = Date 2024 3 5, r_inmate = Some 7\<rparr>]"
proof -
  have good: "strptime_Ymd ''2024-02-01'' = Some (Date 2024 2 1)"
    by (simp add: strptime_defs)
  show ?thesis
    using good add_request_default_action [of
      "\<lparr>inmates = [7 \<mapsto> inmate_of 7 None []], requests = [], shipments = []\<rparr>" 7
      "inmate_of 7 None []" "[''postmarkdate'' \<mapsto> ''2024-02-01'']" "Date 2024 2 1"
      "\<lambda>d. ''2024-02-01''" "\<lambda>r. ''html''" "Date 2024 3 5" Map.empty]
    by (auto simp: new_autoid_def split: if_splits)
qed

text \<open>
  C6. A search that was posted and whose form validated ends in one of three
  ways, decided by the number of inmates the query returned. None: the warning
  \<^verbatim>\<open>no inmates matched your search\<close> is flashed and the search form is
  rendered again, without a redirect. Exactly one: the response is a redirect
  to \<^verbatim>\<open>view_inmate\<close> for that inmate's \<^verbatim>\<open>autoid\<close>. More than one: the list
  template is rendered with all of them. In each case the provider errors are
  flashed first.
\<close>

theorem search_inmates_dispatch:
  assumes "method = POST" and "f_valid form"
    and "run_search qn qi form = (found, errors)"
  shows "search_inmates qn qi method form flashed =
     (if found = [] then
        (Template ''search_inmates.html'' [],
         flashed @ map (\<lambda>e. (e, ''alert-warning'')) errors
           @ [(''no inmates matched your search'', ''alert-warning'')])
      else if length found = 1 then
        (RedirectTo ''view_inmate'' (i_autoid (hd found)),
         flashed @ map (\<lambda>e. (e, ''alert-warning'')) errors)
      else
        (Template ''list_inmates.html'' found,
         flashed @ map (\<lambda>e. (e, ''alert-warning'')) errors))"
proof (cases found)
  case Nil
  with assms show ?thesis by (simp add: search_inmates_def)
next
  case (Cons inmate rest)
  with assms show ?thesis
    by (cases rest) (simp_all add: search_inmates_def)
qed

theorem search_inmates_dispatch_witness:
  "search_inmates (\<lambda>f l. ([], [])) (\<lambda>i. ([], [])) POST
      \<lparr>f_valid = True, f_first_name = Some ''John'', f_last_name = Some ''Doe'', f_id = None\<rparr> []
     = (Template ''search_inmates.html'' [],
        [(''no inmates matched your search'', ''alert-warning'')])
   \<and> search_inmates (\<lambda>f l. ([inmate_of 7 None []], [])) (\<lambda>i. ([], [])) POST
      \<lparr>f_valid = True, f_first_name = Some ''John'', f_last_name = Some ''Doe'', f_id = None\<rparr> []
     = (RedirectTo ''view_inmate'' 7, [])
   \<and> search_inmates (\<lambda>f l. ([], [])) (\<lambda>i. ([inmate_of 7 None [], inmate_of 8 None []], [''timeout''])) POST
      \<lparr>f_valid = True, f_first_name = None, f_last_name = None, f_id = Some 1234\<rparr> []
     = (Template ''list_inmates.html'' [inmate_of 7 None [], inmate_of 8 None []],
        [(''timeout'', ''alert-warning'')])"
  using
    search_inmates_dispatch [of POST
      "\<lparr>f_valid = True, f_first_name = Some ''John'', f_last_name = Some ''Doe'', f_id = None\<rparr>"
      "\<lambda>f l. ([], [])" "\<lambda>i. ([], [])" "[]" "[]" "[]"]
    search_inmates_dispatch [of POST
      "\<lparr>f_valid = True, f_first_name = Some ''John'', f_last_name = Some ''Doe'', f_id = None\<rparr>"
      "\<lambda>f l. ([inmate_of 7 None []], [])" "\<lambda>i. ([], [])" "[inmate_of 7 None []]" "[]" "[]"]
    search_inmates_dispatch [of POST
      "\<lparr>f_valid = True, f_first_name = None, f_last_name = None, f_id = Some 1234\<rparr>"
      "\<lambda>f l. ([], [])" "\<lambda>i. ([inmate_of 7 None [], inmate_of 8 None []], [''timeout''])"
      "[inmate_of 7 None [], inmate_of 8 None []]" "[''timeout'']" "[]"]
  by (simp add: run_search_def truthy_def inmate_of_def)

text \<open>
  C7. \<^verbatim>\<open>shipping_volume\<close> reports one bucket for each month in which a
  shipment that passes the query's \<^verbatim>\<open>WHERE\<close> clause was shipped, and no
  other bucket: the two lists have the same length, no month is listed twice,
  and the months listed are exactly the months of those shipments. Every
  bucket pairs its month with the floor of one sixteenth of the summed
  weight, in ounces, of all the shipments shipped in that month: the fraction
  of a pound is dropped, not rounded. A month with a single shipment of 32
  ounces reports 2 pounds, and so does one with a single shipment of 33
  ounces; two shipments of 10 ounces in one month report 1 pound together.
\<close>

theorem shipping_volume_pounds:
  "length (fst (shipping_volume bare s)) = length (snd (shipping_volume bare s))
   \<and> distinct (fst (shipping_volume bare s))
   \<and> set (fst (shipping_volume bare s))
       = (\<lambda>x. sql_strftime_Ym (s_date_shipped x))
           ` {x \<in> set (shipments s). since_cutoff (s_date_shipped x)}
   \<and> (\<forall>(d, p) \<in> set (zip (fst (shipping_volume bare s)) (snd (shipping_volume bare s))).
         p = sum_list (map s_weight
               (filter (\<lambda>x. sql_strftime_Ym (s_date_shipped x) = d) (shipments s))) div 16
       \<and> 16 * p \<le> sum_list (map s_weight
               (filter (\<lambda>x. sql_strftime_Ym (s_date_shipped x) = d) (shipments s)))
       \<and> sum_list (map s_weight
               (filter (\<lambda>x. sql_strftime_Ym (s_date_shipped x) = d) (shipments s))) < 16 * p + 16)"
proof (intro conjI)
  show "length (fst (shipping_volume bare s)) = length (snd (shipping_volume bare s))"
    by (simp add: shipping_volume_def Let_def)
  show "distinct (fst (shipping_volume bare s))"
    by (simp only: shipping_volume_dates sorted_groups_distinct)
  have "set (fst (shipping_volume bare s))
      = (\<lambda>x. sql_strftime_Ym (s_date_shipped x))
          ` set (filter (\<lambda>x. since_cutoff (s_date_shipped x)) (shipments s))"
    by (simp only: shipping_volume_dates sorted_groups_keys)
  then show "set (fst (shipping_volume bare s))
       = (\<lambda>x. sql_strftime_Ym (s_date_shipped x))
           ` {x \<in> set (shipments s). since_cutoff (s_date_shipped x)}"
    by (simp only: set_filter)
  show "\<forall>(d, p) \<in> set (zip (fst (shipping_volume bare s)) (snd (shipping_volume bare s))).
         p = sum_list (map s_weight
               (filter (\<lambda>x. sql_strftime_Ym (s_date_shipped x) = d) (shipments s))) div 16
       \<and> 16 * p \<le> sum_list (map s_weight
               (filter (\<lambda>x. sql_strftime_Ym (s_date_shipped x) = d) (shipments s)))
       \<and> sum_list (map s_weight
               (filter (\<lambda>x. sql_strftime_Ym (s_date_shipped x) = d) (shipments s))) < 16 * p + 16"
    using shipping_volume_bucket [of _ _ bare s] by blast
qed

theorem shipping_volume_pounds_witness:
  "shipping_volume last \<lparr>inmates = Map.empty, requests = [],
      shipments = [shipment_of (Date 2023 5 10) 32]\<rparr> = ([''2023-05''], [2])
   \<and> shipping_volume last \<lparr>inmates = Map.empty, requests = [],
      shipments = [shipment_of (Date 2023 5 10) 33]\<rparr> = ([''2023-05''], [2])
   \<and> shipping_volume last may_june = ([''2023-05'', ''2023-06''], [1, 2])
   \<and> sum_list (map s_weight
         (filter (\<lambda>x. sql_strftime_Ym (s_date_shipped x) = ''2023-05'') (shipments may_june)))
       = 20"
proof -
  have single: "shipping_volume last \<lparr>inmates = Map.empty, requests = [],
      shipments = [shipment_of (Date 2023 5 10) w]\<rparr> = ([''2023-05''], [w div 16])" for w
    by (simp add: shipping_volume_def group_by_def shipment_of_def month_texts)
  have both: "shipping_volume last may_june = ([''2023-05'', ''2023-06''], [1, 2])"
    by (simp add: shipping_volume_def may_june_def group_by_def shipment_of_def month_texts
        isoformat_def zfill_def str_nat.simps)
  have total: "sum_list (map s_weight
         (filter (\<lambda>x. sql_strftime_Ym (s_date_shipped x) = ''2023-05'') (shipments may_june)))
       = 20"
    by (simp add: may_june_def shipment_of_def month_texts)
  from shipping_volume_pounds [of last may_june]
  have "\<forall>(d, p) \<in> set (zip (fst (shipping_volume last may_june))
            (snd (shipping_volume last may_june))).
          p = sum_list (map s_weight
               (filter (\<lambda>x. sql_strftime_Ym (s_date_shipped x) = d) (shipments may_june))) div 16"
    by blast
  then have "(1::int) = sum_list (map s_weight
         (filter (\<lambda>x. sql_strftime_Ym (s_date_shipped x) = ''2023-05'') (shipments may_june)))
       div 16"
    by (simp add: both)
  with single [of 32] single [of 33] both total show ?thesis
    by simp
qed

text \<open>
  C8. The specification states that every metrics query keeps exactly the
  months from 2006-06 on. The queries compare the year text of a date with
  \<^verbatim>\<open>'2006-06'\<close>; the year text \<^verbatim>\<open>2006\<close> is a proper prefix of it and so
  sorts before it. A Request postmarked, or a Shipment shipped, on any day of
  2006 (2006-07-15, say) is therefore in no bucket of any of the three queries,
  while one of March 2007 is counted.
\<close>

theorem metrics_cutoff_is_year_2007:
  "request_counts bare \<lparr>inmates = Map.empty,
      requests = [request_of 1 (Some 7) (Date 2006 m d)], shipments = []\<rparr> = ([], [])
   \<and> new_request_counts \<lparr>inmates = Map.empty,
      requests = [request_of 1 (Some 7) (Date 2006 m d)], shipments = []\<rparr> = ([], [])
   \<and> shipping_volume bare' \<lparr>inmates = Map.empty, requests = [],
      shipments = [shipment_of (Date 2006 m d) 32]\<rparr> = ([], [])
   \<and> request_counts bare \<lparr>inmates = Map.empty,
      requests = [request_of 1 (Some 7) (Date 2007 3 15)], shipments = []\<rparr> = ([''2007-03''], [1])"
proof -
  have month: "sql_strftime_Ym (Date 2007 3 15) = ''2007-03''"
    by (simp add: sql_strftime_Ym_def sql_strftime_Y_def zfill_def str_nat.simps)
  show ?thesis
    by (simp add: request_counts_def new_request_counts_def shipping_volume_def group_by_def
        request_of_def shipment_of_def cutoff_2006 cutoff_2007 month List.map_filter_simps)
qed

text \<open>
  C9. Loading through the Request or the Comment schema fails with a validation
  error that names the field and gives the reason in each of these cases: a
  Request input without \<^verbatim>\<open>date_postmarked\<close> (missing data); a Request input
  whose \<^verbatim>\<open>action\<close> is not the text \<^verbatim>\<open>Tossed\<close> or \<^verbatim>\<open>Filled\<close> (missing,
  null, not a text, or a text outside the two choices); a Comment input whose
  \<^verbatim>\<open>author\<close> or \<^verbatim>\<open>body\<close> is absent or the empty text.
\<close>

theorem schema_required_fields:
  "(data ''date_postmarked'' = None \<longrightarrow>
      (\<exists>errors. load lib RequestSchema data = Inl errors
         \<and> map_of errors ''date_postmarked'' = Some [''Missing data for required field.'']))
   \<and> (data ''action'' \<noteq> Some (JStr ''Tossed'') \<and> data ''action'' \<noteq> Some (JStr ''Filled'') \<longrightarrow>
      (\<exists>errors. load lib RequestSchema data = Inl errors
         \<and> map_of errors ''action'' = Some
              [case data ''action'' of
                 None \<Rightarrow> ''Missing data for required field.''
               | Some JNull \<Rightarrow> ''Field may not be null.''
               | Some (JStr a) \<Rightarrow> ''Must be one of: Tossed, Filled.''
               | Some other \<Rightarrow> ''Not a valid string.'']))
   \<and> ((field = ''author'' \<or> field = ''body'')
        \<and> (cdata field = None \<or> cdata field = Some (JStr [])) \<longrightarrow>
      (\<exists>errors. load lib CommentSchema cdata = Inl errors
         \<and> map_of errors field = Some
              [if cdata field = None then ''Missing data for required field.''
               else ''Shorter than minimum length 1.'']))"
proof (intro conjI impI)
  let ?date = "\<lparr>fld_type = F_Date, fld_validate = [], fld_required = True, fld_dump_only = False\<rparr>"
  assume "data ''date_postmarked'' = None"
  then have "load_field lib ?date (data ''date_postmarked'')
      = Invalid [''Missing data for required field.'']"
    by (simp add: load_field_missing)
  moreover have "(''date_postmarked'', ?date) \<in> set RequestSchema"
    by (simp add: RequestSchema_def)
  ultimately show "\<exists>errors. load lib RequestSchema data = Inl errors
      \<and> map_of errors ''date_postmarked'' = Some [''Missing data for required field.'']"
    by (rule request_schema_names_field [rotated])
next
  let ?action = "\<lparr>fld_type = F_Str, fld_validate = [OneOf [''Tossed'', ''Filled'']],
      fld_required = True, fld_dump_only = False\<rparr>"
  let ?reason = "case data ''action'' of
                 None \<Rightarrow> ''Missing data for required field.''
               | Some JNull \<Rightarrow> ''Field may not be null.''
               | Some (JStr a) \<Rightarrow> ''Must be one of: Tossed, Filled.''
               | Some other \<Rightarrow> ''Not a valid string.''"
  assume outside: "data ''action'' \<noteq> Some (JStr ''Tossed'') \<and> data ''action'' \<noteq> Some (JStr ''Filled'')"
  have "load_field lib ?action (data ''action'') = Invalid [?reason]"
  proof (cases "data ''action''")
    case None
    then show ?thesis by (simp add: load_field_missing)
  next
    case (Some v)
    with outside show ?thesis
      by (cases v) (simp_all add: load_field_null load_field_not_text load_field_choice)
  qed
  moreover have "(''action'', ?action) \<in> set RequestSchema"
    by (simp add: RequestSchema_def)
  ultimately show "\<exists>errors. load lib RequestSchema data = Inl errors
      \<and> map_of errors ''action'' = Some [?reason]"
    by (rule request_schema_names_field [rotated])
next
  let ?text = "\<lparr>fld_type = F_Str, fld_validate = [Length_min 1],
      fld_required = True, fld_dump_only = False\<rparr>"
  let ?reason = "if cdata field = None then ''Missing data for required field.''
               else ''Shorter than minimum length 1.''"
  assume bad: "(field = ''author'' \<or> field = ''body'')
        \<and> (cdata field = None \<or> cdata field = Some (JStr []))"
  then have "load_field lib ?text (cdata field) = Invalid [?reason]"
    by (auto simp: load_field_missing load_field_empty)
  moreover from bad have "(field, ?text) \<in> set CommentSchema"
    by (auto simp: CommentSchema_def)
  ultimately show "\<exists>errors. load lib CommentSchema cdata = Inl errors
      \<and> map_of errors field = Some [?reason]"
    by (rule comment_schema_names_field [rotated])
qed

theorem schema_required_fields_witness:
  "load (\<lambda>t v. None) RequestSchema [''action'' \<mapsto> JStr ''Shredded'', ''index'' \<mapsto> JInt 5]
     = Inl [(''date_postmarked'', [''Missing data for required field.'']),
            (''action'', [''Must be one of: Tossed, Filled.''])]
   \<and> load (\<lambda>t v. None) CommentSchema [''author'' \<mapsto> JStr []]
     = Inl [(''author'', [''Shorter than minimum length 1.'']),
            (''body'', [''Missing data for required field.''])]"
proof -
  let ?data = "[''action'' \<mapsto> JStr ''Shredded'', ''index'' \<mapsto> JInt 5]"
  let ?cdata = "[''author'' \<mapsto> JStr []]"
  have absent: "?data ''date_postmarked'' = None"
    and outside: "?data ''action'' \<noteq> Some (JStr ''Tossed'') \<and> ?data ''action'' \<noteq> Some (JStr ''Filled'')"
    and empty: "(''author'' = ''author'' \<or> ''author'' = ''body'')
        \<and> (?cdata ''author'' = None \<or> ?cdata ''author'' = Some (JStr []))"
    by simp_all
  from schema_required_fields [of ?data "\<lambda>t v. None" "''author''" ?cdata] absent outside empty
  obtain errors cerrors where "load (\<lambda>t v. None) RequestSchema ?data = Inl errors"
    and "load (\<lambda>t v. None) CommentSchema ?cdata = Inl cerrors"
    by blast
  then show ?thesis
    by (auto simp: load_def RequestSchema_def CommentSchema_def load_field_def str_nat.simps)
qed

text \<open>
  C10. For a Request that exists and whose Inmate exists but has no Unit,
  \<^verbatim>\<open>request_info\<close> answers with the JSON projection (status 200) in which
  \<^verbatim>\<open>unit_name\<close> and \<^verbatim>\<open>unit_shipping_method\<close> are the text \<^verbatim>\<open>N/A\<close>. For a
  Request that exists, the answer is a 400 exactly when the Request has no
  associated Inmate.
\<close>

theorem request_info_unassigned:
  assumes "get_request s autoid = Some request"
  shows "(\<forall>inmate. request_inmate s request = Some inmate \<and> i_unit inmate = None \<longrightarrow>
            (\<exists>fields. request_info autoid s = Jsonify fields
               \<and> map_of fields ''unit_name'' = Some (JStr ''N/A'')
               \<and> map_of fields ''unit_shipping_method'' = Some (JStr ''N/A'')))
       \<and> ((\<exists>body. request_info autoid s = Body body 400) \<longleftrightarrow> request_inmate s request = None)"
  using assms
  by (auto simp: request_info_def split: option.splits)

theorem request_info_unassigned_witness:
  "request_info 5
      \<lparr>inmates = [7 \<mapsto> inmate_of 7 None []],
       requests = [request_of 5 (Some 7) (Date 2024 2 1)], shipments = []\<rparr>
     = Jsonify [(''inmate_jurisdiction'', JStr ''Texas''),
                (''inmate_name'', JStr ''Doe, John''),
                (''inmate_id'', JStr ''00001241''),
                (''package_id'', JInt 5),
                (''unit_name'', JStr ''N/A''),
                (''unit_shipping_method'', JStr ''N/A'')]"
proof -
  let ?s = "\<lparr>inmates = [7 \<mapsto> inmate_of 7 None []],
       requests = [request_of 5 (Some 7) (Date 2024 2 1)], shipments = []\<rparr>"
  have found: "get_request ?s 5 = Some (request_of 5 (Some 7) (Date 2024 2 1))"
    by (simp add: get_request_def request_of_def)
  have inmate: "request_inmate ?s (request_of 5 (Some 7) (Date 2024 2 1)) = Some (inmate_of 7 None [])"
    by (simp add: request_inmate_def request_of_def)
  have unit: "i_unit (inmate_of 7 None []) = None"
    by (simp add: inmate_of_def)
  have digits: "fmt_08d 1241 = ''00001241''"
    by code_simp
  from request_info_unassigned [OF found] inmate unit
  obtain fields where "request_info 5 ?s = Jsonify fields"
    by blast
  then show ?thesis
    using found inmate digits
    by (simp add: request_info_def inmate_of_def request_of_def)
qed

end
